theory Spec2Isabelle
  imports Main
begin

section \<open>The voice session component (frontend/src/VoiceChat.jsx)\<close>

text \<open>
  The component keeps React state (\<open>useState\<close>), refs to browser objects
  (\<open>useRef\<close>) and drives three browser services: WebSocket, MediaRecorder with its
  MediaStream, and speechSynthesis. The model is one record holding the React state, the
  refs, a store of the browser objects the component has created, and a log of the calls
  made on the browser, in order. Every handler of the component is a function on that
  record. A handler that can throw returns the state reached together with the
  exception, since the assignments made before the throw stay in force.
\<close>

subsection \<open>Values\<close>

text \<open>
  Values read from a parsed JSON message. \<open>truthy\<close> is JavaScript's ToBoolean; numbers
  are kept as integers (only their being zero matters here) and \<open>JObject\<close> stands for
  any object or array.
\<close>

datatype jsval = JUndefined | JNull | JBool bool | JNum int | JStr string | JObject

fun truthy :: "jsval \<Rightarrow> bool" where
  "truthy JUndefined = False"
| "truthy JNull = False"
| "truthy (JBool b) = b"
| "truthy (JNum n) = (n \<noteq> 0)"
| "truthy (JStr t) = (t \<noteq> [])"
| "truthy JObject = True"

text \<open>\<open>a || b\<close>\<close>

definition js_or :: "jsval \<Rightarrow> jsval \<Rightarrow> jsval" where
  "js_or a b = (if truthy a then a else b)"

datatype exn = TypeError | SyntaxError | InvalidStateError

datatype view = Setup | Active | Summary

datatype mode = Teacher | Immersive

record language =
  l_code :: string
  l_name :: string

definition LANGUAGES :: "language list" where
  "LANGUAGES =
    [\<lparr>l_code = ''en'', l_name = ''English''\<rparr>,
     \<lparr>l_code = ''en-gb'', l_name = ''English (UK)''\<rparr>,
     \<lparr>l_code = ''hi'', l_name = ''Hindi''\<rparr>,
     \<lparr>l_code = ''ta'', l_name = ''Tamil''\<rparr>,
     \<lparr>l_code = ''te'', l_name = ''Telugu''\<rparr>,
     \<lparr>l_code = ''bn'', l_name = ''Bengali''\<rparr>,
     \<lparr>l_code = ''mr'', l_name = ''Marathi''\<rparr>,
     \<lparr>l_code = ''gu'', l_name = ''Gujarati''\<rparr>,
     \<lparr>l_code = ''kn'', l_name = ''Kannada''\<rparr>,
     \<lparr>l_code = ''ml'', l_name = ''Malayalam''\<rparr>,
     \<lparr>l_code = ''pa'', l_name = ''Punjabi''\<rparr>,
     \<lparr>l_code = ''ur'', l_name = ''Urdu''\<rparr>,
     \<lparr>l_code = ''es'', l_name = ''Spanish''\<rparr>,
     \<lparr>l_code = ''fr'', l_name = ''French''\<rparr>,
     \<lparr>l_code = ''de'', l_name = ''German''\<rparr>,
     \<lparr>l_code = ''it'', l_name = ''Italian''\<rparr>,
     \<lparr>l_code = ''pt'', l_name = ''Portuguese''\<rparr>,
     \<lparr>l_code = ''ru'', l_name = ''Russian''\<rparr>,
     \<lparr>l_code = ''nl'', l_name = ''Dutch''\<rparr>,
     \<lparr>l_code = ''pl'', l_name = ''Polish''\<rparr>,
     \<lparr>l_code = ''ja'', l_name = ''Japanese''\<rparr>,
     \<lparr>l_code = ''ko'', l_name = ''Korean''\<rparr>,
     \<lparr>l_code = ''zh'', l_name = ''Mandarin''\<rparr>,
     \<lparr>l_code = ''th'', l_name = ''Thai''\<rparr>,
     \<lparr>l_code = ''vi'', l_name = ''Vietnamese''\<rparr>,
     \<lparr>l_code = ''id'', l_name = ''Indonesian''\<rparr>,
     \<lparr>l_code = ''ar'', l_name = ''Arabic''\<rparr>,
     \<lparr>l_code = ''he'', l_name = ''Hebrew''\<rparr>,
     \<lparr>l_code = ''tr'', l_name = ''Turkish''\<rparr>]"

text \<open>A mission of the catalog; the handlers read only its \<open>id\<close>.\<close>

record mission =
  ms_id :: string
  ms_title :: string

datatype role = User | Assistant

record entry =
  e_role :: role
  e_text :: jsval
  e_isTemp :: bool

subsection \<open>Messages\<close>

text \<open>
  An inbound message is the object \<open>JSON.parse(event.data)\<close>, with the properties the
  handler reads; a property the object lacks reads \<open>JUndefined\<close>.
\<close>

record msg =
  m_type :: jsval
  m_session_id :: jsval
  m_text :: jsval
  m_is_final :: jsval
  m_data :: jsval
  m_message :: jsval

text \<open>
  What \<open>JSON.parse\<close> makes of a frame: it throws on text that is not JSON, yields
  \<open>null\<close> on the text \<open>null\<close>, and otherwise a value whose properties can be read.
\<close>

datatype parsed = PInvalid | PNull | PObj msg

text \<open>
  The three outbound messages, as passed to \<open>JSON.stringify\<close>: an utterance (the
  recorded bytes, sent base64-encoded with mime type \<open>audio/webm\<close>), typed text, and
  the termination request.
\<close>

datatype outmsg = OutAudio string | OutText string | OutEnd

text \<open>The body of the session request (POST /api/voice/session).\<close>

record request =
  rq_mission_id :: "string option"
  rq_language :: string
  rq_from_language :: string
  rq_mode :: mode

subsection \<open>Browser objects\<close>

datatype readyState = CONNECTING | OPEN | CLOSING | CLOSED

record socket =
  ws_session :: jsval
  ws_secure :: bool
  ws_readyState :: readyState
  ws_sent :: "outmsg list"

datatype recorder_state = Inactive | Recording

record recorder =
  r_stream :: nat
  r_state :: recorder_state
  r_chunks :: "string list"

record voice =
  v_name :: string
  v_lang :: string

record utterance =
  u_text :: jsval
  u_voice :: "voice option"

text \<open>
  \<open>window.speechSynthesis\<close>: the installed voices and the utterances queued, the first
  of them being the one spoken.
\<close>

record synth =
  sy_voices :: "voice list"
  sy_queue :: "utterance list"

text \<open>
  The calls made on the browser, in the order made; a console call carries its text and
  the values logged after it.
\<close>

datatype effect =
    Fetch request
  | NewWebSocket nat
  | GetUserMedia
  | NewAudioContext
  | RecorderStart nat
  | RecorderStop nat
  | TrackStop nat
  | SynthCancel
  | SynthSpeak utterance
  | WsSend nat outmsg
  | WsClose nat
  | ConsoleLog string "jsval list"
  | ConsoleError string "jsval list"

subsection \<open>The component's state\<close>

text \<open>
  The \<open>useState\<close> variables and the refs of \<open>VoiceChat\<close>, then the store. A ref to a
  socket, recorder or stream holds the object's index in the store; an index beyond the
  store names no object and reads as a closed socket, an inactive recorder, an ended
  stream. A stream is its one audio track: \<open>True\<close> while the track is live.
\<close>

record state =
  view :: view
  missions :: "mission list"
  selectedMission :: "mission option"
  selectedLanguage :: language
  mode :: mode
  sessionId :: jsval
  isConnected :: bool
  isRecording :: bool
  isMuted :: bool
  transcripts :: "entry list"
  error :: jsval
  textInput :: string
  wsRef :: "nat option"
  mediaRecorderRef :: "nat option"
  audioContextRef :: "nat option"
  streamRef :: "nat option"
  synthRef :: "synth option"
  sockets :: "socket list"
  recorders :: "recorder list"
  streams :: "bool list"
  audioContexts :: nat
  effects :: "effect list"

text \<open>The first render: \<open>sy\<close> is \<open>window.speechSynthesis\<close>, absent in some browsers.\<close>

definition initial :: "synth option \<Rightarrow> state" where
  "initial sy =
    \<lparr>view = Setup, missions = [], selectedMission = None,
     selectedLanguage = hd LANGUAGES, mode = Teacher, sessionId = JNull,
     isConnected = False, isRecording = False, isMuted = False, transcripts = [],
     error = JNull, textInput = [], wsRef = None, mediaRecorderRef = None,
     audioContextRef = None, streamRef = None, synthRef = sy, sockets = [],
     recorders = [], streams = [], audioContexts = 0, effects = []\<rparr>"

definition call :: "effect \<Rightarrow> state \<Rightarrow> state" where
  "call e s = s\<lparr>effects := effects s @ [e]\<rparr>"

definition readyState_of :: "state \<Rightarrow> nat \<Rightarrow> readyState" where
  "readyState_of s i = (if i < length (sockets s) then ws_readyState (sockets s ! i) else CLOSED)"

definition recorder_state_of :: "state \<Rightarrow> nat \<Rightarrow> recorder_state" where
  "recorder_state_of s i = (if i < length (recorders s) then r_state (recorders s ! i) else Inactive)"

definition live :: "state \<Rightarrow> nat \<Rightarrow> bool" where
  "live s i = (i < length (streams s) \<and> streams s ! i)"

definition sent_of :: "state \<Rightarrow> nat \<Rightarrow> outmsg list" where
  "sent_of s i = (if i < length (sockets s) then ws_sent (sockets s ! i) else [])"

subsection \<open>The browser's WebSocket, MediaRecorder and speechSynthesis\<close>

text \<open>
  \<open>WebSocket.send\<close> throws InvalidStateError while the socket is connecting, hands the
  message to the connection when it is open, and discards it once the socket is closing
  or closed. \<open>WebSocket.close\<close> starts the closing handshake of a connecting or open
  socket and does nothing otherwise; it does not throw.
\<close>

definition ws_send :: "nat \<Rightarrow> outmsg \<Rightarrow> state \<Rightarrow> state \<times> exn option" where
  "ws_send i m s =
    (let s1 = call (WsSend i m) s in
     case readyState_of s i of
       CONNECTING \<Rightarrow> (s1, Some InvalidStateError)
     | OPEN \<Rightarrow>
         (s1\<lparr>sockets := (sockets s)[i := (sockets s ! i)\<lparr>ws_sent := ws_sent (sockets s ! i) @ [m]\<rparr>]\<rparr>,
          None)
     | CLOSING \<Rightarrow> (s1, None)
     | CLOSED \<Rightarrow> (s1, None))"

definition ws_close :: "nat \<Rightarrow> state \<Rightarrow> state" where
  "ws_close i s =
    (let s1 = call (WsClose i) s in
     if readyState_of s i = CONNECTING \<or> readyState_of s i = OPEN
     then s1\<lparr>sockets := (sockets s)[i := (sockets s ! i)\<lparr>ws_readyState := CLOSING\<rparr>]\<rparr>
     else s1)"

text \<open>\<open>MediaRecorder.stop\<close>, called by the component only on a recording recorder.\<close>

definition recorder_stop :: "nat \<Rightarrow> state \<Rightarrow> state" where
  "recorder_stop i s =
    (call (RecorderStop i) s)\<lparr>recorders := (recorders s)[i := (recorders s ! i)\<lparr>r_state := Inactive\<rparr>]\<rparr>"

text \<open>\<open>stream.getTracks().forEach(track => track.stop())\<close>\<close>

definition tracks_stop :: "nat \<Rightarrow> state \<Rightarrow> state" where
  "tracks_stop i s = (call (TrackStop i) s)\<lparr>streams := (streams s)[i := False]\<rparr>"

text \<open>\<open>synthRef.current?.cancel()\<close>: empties the queue, stopping the utterance spoken.\<close>

definition synth_cancel :: "state \<Rightarrow> state" where
  "synth_cancel s =
    (case synthRef s of
       None \<Rightarrow> s
     | Some sy \<Rightarrow> (call SynthCancel s)\<lparr>synthRef := Some (sy\<lparr>sy_queue := []\<rparr>)\<rparr>)"

subsection \<open>Session start\<close>

text \<open>
  What the awaited \<open>fetch\<close> and \<open>res.json()\<close> come to: an exception with its message
  (network failure, a body that is not JSON), a response that is not ok, or the
  \<open>session_id\<close> of the parsed body. With that \<open>session_id\<close> in hand,
  \<open>new WebSocket(wsUrl)\<close> returns (\<open>RespOk\<close>) or throws on a URL it refuses, with a
  message (\<open>SocketThrows\<close>); every throw ends in the one \<open>catch\<close>.
\<close>

datatype fetch_result = Throws string | NotOk | RespOk jsval | SocketThrows jsval string

definition session_request :: "state \<Rightarrow> request" where
  "session_request s =
    \<lparr>rq_mission_id = map_option ms_id (selectedMission s),
     rq_language = l_name (selectedLanguage s),
     rq_from_language = ''English'',
     rq_mode = mode s\<rparr>"

text \<open>\<open>startSession\<close>; \<open>https\<close> tells whether the page was loaded over https.\<close>

definition startSession :: "fetch_result \<Rightarrow> bool \<Rightarrow> state \<Rightarrow> state" where
  "startSession fr https s =
    (let s1 = call (Fetch (session_request s)) (s\<lparr>error := JNull\<rparr>) in
     case fr of
       Throws m \<Rightarrow> s1\<lparr>error := JStr m\<rparr>
     | NotOk \<Rightarrow> s1\<lparr>error := JStr ''Failed to create session''\<rparr>
     | RespOk sid \<Rightarrow>
         (call (NewWebSocket (length (sockets s1))) s1)
           \<lparr>sessionId := sid,
            sockets := sockets s1 @
              [\<lparr>ws_session = sid, ws_secure = https, ws_readyState = CONNECTING, ws_sent = []\<rparr>],
            wsRef := Some (length (sockets s1))\<rparr>
     | SocketThrows sid m \<Rightarrow> s1\<lparr>sessionId := sid, error := JStr m\<rparr>)"

text \<open>
  The Start Mission button: \<open>onClick={startSession} disabled={!selectedMission}\<close>; a
  disabled button dispatches no click.
\<close>

definition startMissionButton :: "fetch_result \<Rightarrow> bool \<Rightarrow> state \<Rightarrow> state" where
  "startMissionButton fr https s =
    (if selectedMission s = None then s else startSession fr https s)"

text \<open>
  The socket's events. The browser sets \<open>readyState\<close> before it fires \<open>open\<close> (only on a
  connecting socket) or \<open>close\<close>; the handlers are those installed by \<open>startSession\<close>.
\<close>

definition ws_onopen :: "state \<Rightarrow> state" where
  "ws_onopen s = (call (ConsoleLog ''WebSocket connected'' []) s)\<lparr>isConnected := True, view := Active\<rparr>"

definition socket_opened :: "nat \<Rightarrow> state \<Rightarrow> state" where
  "socket_opened i s =
    (if readyState_of s i = CONNECTING
     then ws_onopen (s\<lparr>sockets := (sockets s)[i := (sockets s ! i)\<lparr>ws_readyState := OPEN\<rparr>]\<rparr>)
     else s)"

definition ws_onerror :: "state \<Rightarrow> state" where
  "ws_onerror s = (call (ConsoleError ''WebSocket error:'' [JObject]) s)\<lparr>error := JStr ''Connection error''\<rparr>"

definition ws_onclose :: "state \<Rightarrow> state" where
  "ws_onclose s = s\<lparr>isConnected := False, isRecording := False\<rparr>"

definition socket_closed :: "nat \<Rightarrow> state \<Rightarrow> state" where
  "socket_closed i s =
    ws_onclose (s\<lparr>sockets := (sockets s)[i := (sockets s ! i)\<lparr>ws_readyState := CLOSED\<rparr>]\<rparr>)"

subsection \<open>Speech\<close>

text \<open>
  \<open>handleWebSocketMessage\<close> is installed as \<open>ws.onmessage\<close> by \<open>startSession\<close>, so the
  state variables read inside it and inside the \<open>speakText\<close> it calls (\<open>isMuted\<close>,
  \<open>selectedLanguage\<close>) are those of the render in which \<open>startSession\<close> ran. The model
  passes them as a snapshot; refs and state setters always act on the current state.
\<close>

record render =
  rn_isMuted :: bool
  rn_selectedLanguage :: language

definition render_of :: "state \<Rightarrow> render" where
  "render_of s = \<lparr>rn_isMuted = isMuted s, rn_selectedLanguage = selectedLanguage s\<rparr>"

fun startsWith :: "string \<Rightarrow> string \<Rightarrow> bool" where
  "startsWith s [] = True"
| "startsWith [] (p # ps) = False"
| "startsWith (c # cs) (p # ps) = (c = p \<and> startsWith cs ps)"

text \<open>\<open>voices.find(v => v.lang.startsWith(langCode)) || voices[0]\<close>\<close>

definition pick_voice :: "voice list \<Rightarrow> string \<Rightarrow> voice option" where
  "pick_voice voices langCode =
    (case find (\<lambda>v. startsWith (v_lang v) langCode) voices of
       Some v \<Rightarrow> Some v
     | None \<Rightarrow> (case voices of [] \<Rightarrow> None | v # _ \<Rightarrow> Some v))"

definition speakText :: "render \<Rightarrow> jsval \<Rightarrow> state \<Rightarrow> state" where
  "speakText rn text s =
    (case synthRef s of
       None \<Rightarrow> s
     | Some sy \<Rightarrow>
         if rn_isMuted rn then s
         else
           (let u = \<lparr>u_text = text, u_voice = pick_voice (sy_voices sy) (l_code (rn_selectedLanguage rn))\<rparr>
            in (call (SynthSpeak u) (call SynthCancel s))\<lparr>synthRef := Some (sy\<lparr>sy_queue := [u]\<rparr>)\<rparr>))"

text \<open>The mute button: \<open>onClick={() => setIsMuted(!isMuted)}\<close>\<close>

definition toggleMute :: "state \<Rightarrow> state" where
  "toggleMute s = s\<lparr>isMuted := \<not> isMuted s\<rparr>"

subsection \<open>Inbound dispatch\<close>

text \<open>
  \<open>handleWebSocketMessage\<close>: a \<open>switch\<close> on \<open>msg.type\<close> with no \<open>default\<close>; \<open>case\<close>
  labels compare with \<open>===\<close>, so only the string itself matches.
\<close>

definition handleWebSocketMessage :: "render \<Rightarrow> msg \<Rightarrow> state \<Rightarrow> state" where
  "handleWebSocketMessage rn m s =
    (if m_type m = JStr ''connected'' then call (ConsoleLog ''Session connected:'' [m_session_id m]) s
     else if m_type m = JStr ''input_transcript'' then
       s\<lparr>transcripts := transcripts s @
           (if truthy (m_is_final m)
            then [\<lparr>e_role = User, e_text = m_text m, e_isTemp = False\<rparr>] else [])\<rparr>
     else if m_type m = JStr ''output_transcript'' \<or> m_type m = JStr ''text'' then
       (let text = js_or (m_text m) (m_data m) in
        if truthy text
        then speakText rn text
               (s\<lparr>transcripts := transcripts s @ [\<lparr>e_role = Assistant, e_text = text, e_isTemp = False\<rparr>]\<rparr>)
        else s)
     else if m_type m = JStr ''turn_complete'' then call (ConsoleLog ''Turn complete'' []) s
     else if m_type m = JStr ''error'' then s\<lparr>error := m_message m\<rparr>
     else if m_type m = JStr ''session_ended'' then s\<lparr>view := Summary\<rparr>
     else s)"

text \<open>
  \<open>ws.onmessage\<close>: \<open>JSON.parse\<close> throws on malformed text, and reading \<open>msg.type\<close> of
  \<open>null\<close> throws a TypeError; neither is caught.
\<close>

definition ws_onmessage :: "render \<Rightarrow> parsed \<Rightarrow> state \<Rightarrow> state \<times> exn option" where
  "ws_onmessage rn p s =
    (case p of
       PInvalid \<Rightarrow> (s, Some SyntaxError)
     | PNull \<Rightarrow> (s, Some TypeError)
     | PObj m \<Rightarrow> (handleWebSocketMessage rn m s, None))"

text \<open>A run of messages delivered in order to a handler that did not throw.\<close>

fun deliver :: "render \<Rightarrow> msg list \<Rightarrow> state \<Rightarrow> state" where
  "deliver rn [] s = s"
| "deliver rn (m # ms) s = deliver rn ms (handleWebSocketMessage rn m s)"

subsection \<open>Capture\<close>

text \<open>
  \<open>startRecording\<close> is an async function. It runs up to \<open>await getUserMedia\<close>
  (\<open>startRecording_call\<close>) and goes on when the promise has settled
  (\<open>startRecording_resume\<close>); other handlers can run in between. \<open>granted\<close>: whether
  \<open>getUserMedia\<close> resolved with a stream; \<open>supported\<close>: whether
  \<open>new MediaRecorder(stream, {mimeType: 'audio/webm'})\<close> returned rather than threw. Both
  failures end in the one \<open>catch\<close>.
\<close>

definition startRecording_call :: "state \<Rightarrow> state" where
  "startRecording_call s = call GetUserMedia s"

definition startRecording_resume :: "bool \<Rightarrow> bool \<Rightarrow> state \<Rightarrow> state" where
  "startRecording_resume granted supported s1 =
    (if \<not> granted then s1\<lparr>error := JStr ''Microphone access denied''\<rparr>
     else
       (let s2 = (call NewAudioContext s1)
                   \<lparr>streams := streams s1 @ [True],
                    streamRef := Some (length (streams s1)),
                    audioContexts := Suc (audioContexts s1),
                    audioContextRef := Some (audioContexts s1)\<rparr>
        in if \<not> supported then s2\<lparr>error := JStr ''Microphone access denied''\<rparr>
           else (call (RecorderStart (length (recorders s2))) s2)
                  \<lparr>recorders := recorders s2 @
                     [\<lparr>r_stream = length (streams s1), r_state = Recording, r_chunks = []\<rparr>],
                   mediaRecorderRef := Some (length (recorders s2)),
                   isRecording := True\<rparr>))"

text \<open>A run of \<open>startRecording\<close> with no other handler between the call and its resumption.\<close>

definition startRecording :: "bool \<Rightarrow> bool \<Rightarrow> state \<Rightarrow> state" where
  "startRecording granted supported s =
    startRecording_resume granted supported (startRecording_call s)"

definition stopRecording :: "state \<Rightarrow> state" where
  "stopRecording s =
    (let s1 = (case mediaRecorderRef s of
                 None \<Rightarrow> s
               | Some r \<Rightarrow> if recorder_state_of s r = Recording then recorder_stop r s else s);
         s2 = (case streamRef s1 of None \<Rightarrow> s1 | Some t \<Rightarrow> tracks_stop t s1)
     in s2\<lparr>isRecording := False\<rparr>)"

text \<open>
  The microphone button: \<open>onClick={isRecording ? stopRecording : startRecording}\<close>, the
  press and the resumption of \<open>startRecording\<close> taken together.
\<close>

definition micButton :: "bool \<Rightarrow> bool \<Rightarrow> state \<Rightarrow> state" where
  "micButton granted supported s =
    (if isRecording s then stopRecording s else startRecording granted supported s)"

text \<open>\<open>mediaRecorder.ondataavailable\<close> of recorder \<open>i\<close>, its \<open>chunks\<close> being local to it.\<close>

definition ondataavailable :: "nat \<Rightarrow> string \<Rightarrow> state \<Rightarrow> state" where
  "ondataavailable i d s =
    (if 0 < length d
     then s\<lparr>recorders := (recorders s)[i := (recorders s ! i)\<lparr>r_chunks := r_chunks (recorders s ! i) @ [d]\<rparr>]\<rparr>
     else s)"

definition chunks_of :: "state \<Rightarrow> nat \<Rightarrow> string list" where
  "chunks_of s i = (if i < length (recorders s) then r_chunks (recorders s ! i) else [])"

text \<open>
  \<open>mediaRecorder.onstop\<close> of recorder \<open>i\<close>, through to \<open>reader.onloadend\<close>: the chunks
  are joined into one blob, which is sent if the socket in \<open>wsRef\<close> is open.
\<close>

definition recorder_onstop :: "nat \<Rightarrow> state \<Rightarrow> state \<times> exn option" where
  "recorder_onstop i s =
    (case wsRef s of
       None \<Rightarrow> (s, None)
     | Some w \<Rightarrow>
         if readyState_of s w = OPEN then ws_send w (OutAudio (concat (chunks_of s i))) s
         else (s, None))"

subsection \<open>Typed text\<close>

text \<open>
  Typed text is a list of code units below 256, a \<open>char\<close> each. Of these,
  \<open>String.prototype.trim\<close> strips tab, line feed, vertical tab, form feed, carriage
  return, space and the no-break space U+00A0; the other white space it strips (U+1680,
  U+2000 to U+200A, U+2028, U+2029, U+202F, U+205F, U+3000, U+FEFF) lies beyond this
  range.
\<close>

definition is_space :: "char \<Rightarrow> bool" where
  "is_space c =
    (c \<in> set [CHR 0x09, CHR 0x0A, CHR 0x0B, CHR 0x0C, CHR 0x0D, CHR 0x20, CHR 0xA0])"

text \<open>\<open>String.prototype.trim\<close>\<close>

definition trim :: "string \<Rightarrow> string" where
  "trim t = rev (dropWhile is_space (rev (dropWhile is_space t)))"

definition sendTextMessage :: "state \<Rightarrow> state \<times> exn option" where
  "sendTextMessage s =
    (if trim (textInput s) = [] then (s, None)
     else case wsRef s of
       None \<Rightarrow> (s, None)
     | Some w \<Rightarrow>
         (case ws_send w (OutText (textInput s)) s of
            (s1, Some e) \<Rightarrow> (s1, Some e)
          | (s1, None) \<Rightarrow>
              (s1\<lparr>transcripts := transcripts s1 @
                    [\<lparr>e_role = User, e_text = JStr (textInput s), e_isTemp = False\<rparr>],
                  textInput := []\<rparr>, None)))"

subsection \<open>Session end\<close>

definition endSession :: "state \<Rightarrow> state \<times> exn option" where
  "endSession s =
    (let s1 = synth_cancel (stopRecording s) in
     case wsRef s1 of
       None \<Rightarrow> (s1\<lparr>view := Summary\<rparr>, None)
     | Some w \<Rightarrow>
         (case ws_send w OutEnd s1 of
            (s2, Some e) \<Rightarrow> (s2, Some e)
          | (s2, None) \<Rightarrow> ((ws_close w s2)\<lparr>view := Summary\<rparr>, None)))"

text \<open>The cleanup of the unmount effect.\<close>

definition unmount :: "state \<Rightarrow> state" where
  "unmount s =
    (let s1 = stopRecording s;
         s2 = (case wsRef s1 of None \<Rightarrow> s1 | Some w \<Rightarrow> ws_close w s1)
     in synth_cancel s2)"

text \<open>The button Try Another Mission of the summary view.\<close>

definition restart :: "state \<Rightarrow> state" where
  "restart s = s\<lparr>view := Setup, transcripts := [], selectedMission := None\<rparr>"

subsection \<open>Observations\<close>

text \<open>The calls made between two states, and the session requests among a list of calls.\<close>

definition new_effects :: "state \<Rightarrow> state \<Rightarrow> effect list" where
  "new_effects s s' = drop (length (effects s)) (effects s')"

fun requests :: "effect list \<Rightarrow> request list" where
  "requests [] = []"
| "requests (Fetch r # es) = r # requests es"
| "requests (e # es) = requests es"

text \<open>The message types the dispatch names.\<close>

definition known_types :: "jsval list" where
  "known_types = map JStr [''connected'', ''input_transcript'', ''output_transcript'', ''text'',
     ''turn_complete'', ''error'', ''session_ended'']"

text \<open>
  A handler ran silently: it set no error to show, made no call on the browser (so logged
  nothing) and threw nothing.
\<close>

definition silent :: "state \<Rightarrow> state \<times> exn option \<Rightarrow> bool" where
  "silent s res = (error (fst res) = error s \<and> effects (fst res) = effects s \<and> snd res = None)"

definition absent_or_empty :: "jsval \<Rightarrow> bool" where
  "absent_or_empty v = (v = JUndefined \<or> v = JNull \<or> v = JStr [])"

text \<open>The socket held in \<open>wsRef\<close> is open.\<close>

definition channel_open :: "state \<Rightarrow> bool" where
  "channel_open s = (case wsRef s of None \<Rightarrow> False | Some w \<Rightarrow> readyState_of s w = OPEN)"

text \<open>
  The recorder held in \<open>mediaRecorderRef\<close> records, or the stream in \<open>streamRef\<close> is
  live. This reads the refs only: it says nothing of a stream or recorder that no ref
  holds any more.
\<close>

definition capturing :: "state \<Rightarrow> bool" where
  "capturing s =
    ((case mediaRecorderRef s of None \<Rightarrow> False | Some r \<Rightarrow> recorder_state_of s r = Recording)
     \<or> (case streamRef s of None \<Rightarrow> False | Some t \<Rightarrow> live s t))"

definition speaking :: "state \<Rightarrow> bool" where
  "speaking s = (case synthRef s of None \<Rightarrow> False | Some sy \<Rightarrow> sy_queue sy \<noteq> [])"

text \<open>
  Store-wide observations: some stream the component has opened is still live; some
  recorder it has created still records. Unlike \<open>capturing\<close> they do not go through the
  refs.
\<close>

definition microphone_open :: "state \<Rightarrow> bool" where
  "microphone_open s = (True \<in> set (streams s))"

definition recording_somewhere :: "state \<Rightarrow> bool" where
  "recording_somewhere s = (Recording \<in> set (map r_state (recorders s)))"

text \<open>Calls that release the microphone or the speaker, and calls on the channel.\<close>

fun is_release :: "effect \<Rightarrow> bool" where
  "is_release (RecorderStop i) = True"
| "is_release (TrackStop i) = True"
| "is_release SynthCancel = True"
| "is_release e = False"

fun is_channel :: "effect \<Rightarrow> bool" where
  "is_channel (WsSend i m) = True"
| "is_channel (WsClose i) = True"
| "is_channel e = False"

text \<open>The state without its log of calls.\<close>

definition observable :: "state \<Rightarrow> state" where
  "observable s = s\<lparr>effects := []\<rparr>"

subsection \<open>Sample runs\<close>

text \<open>A message of the given type with no other property.\<close>

definition message :: "string \<Rightarrow> msg" where
  "message t =
    \<lparr>m_type = JStr t, m_session_id = JUndefined, m_text = JUndefined,
     m_is_final = JUndefined, m_data = JUndefined, m_message = JUndefined\<rparr>"

definition demo_synth :: synth where
  "demo_synth = \<lparr>sy_voices = [\<lparr>v_name = ''Monica'', v_lang = ''es-ES''\<rparr>], sy_queue = []\<rparr>"

text \<open>A mission has been picked in the setup view.\<close>

definition demo_setup :: state where
  "demo_setup =
    (initial (Some demo_synth))\<lparr>selectedMission := Some \<lparr>ms_id = ''m1'', ms_title = ''Cafe''\<rparr>\<rparr>"

text \<open>Start Mission was pressed, the server answered and the socket opened.\<close>

definition demo_active :: state where
  "demo_active = socket_opened 0 (startSession (RespOk (JStr ''s1'')) False demo_setup)"

text \<open>The microphone button was pressed and access granted.\<close>

definition demo_recording :: state where
  "demo_recording = startRecording True True demo_active"

text \<open>An assistant reply arrived and is being spoken, while the recorder still runs.\<close>

definition demo_speaking :: state where
  "demo_speaking =
     handleWebSocketMessage (render_of demo_setup)
       ((message ''output_transcript'')\<lparr>m_text := JStr ''Hola''\<rparr>) demo_recording"

text \<open>The recorder has delivered data, then the server closed the socket.\<close>

definition demo_closed :: state where
  "demo_closed = socket_closed 0 (ondataavailable 0 ''abc'' demo_recording)"

text \<open>
  Start Mission was pressed twice before the first answer came; both requests succeeded,
  the first socket has opened (so the active view with its End button shows) and the
  second, the one held in \<open>wsRef\<close>, is still connecting.
\<close>

definition demo_double :: state where
  "demo_double =
     socket_opened 0
       (startSession (RespOk (JStr ''s2'')) False
         (startSession (RespOk (JStr ''s1'')) False demo_setup))"

text \<open>
  The server closed the socket while the recorder runs: the close handler clears
  \<open>isRecording\<close> and stops nothing.
\<close>

definition demo_server_closed :: state where
  "demo_server_closed = socket_closed 0 demo_recording"

text \<open>The microphone button was then pressed and access granted.\<close>

definition demo_regrab :: state where
  "demo_regrab = micButton True True demo_server_closed"

text \<open>
  In the recording session the microphone button was pressed again, which stops the
  recorder, and the recorder then delivered its data.
\<close>

definition demo_stopped :: state where
  "demo_stopped = ondataavailable 0 ''abc'' (micButton True True demo_recording)"

section \<open>Properties\<close>

lemmas model_defs =
  initial_def LANGUAGES_def call_def readyState_of_def recorder_state_of_def
  live_def sent_of_def chunks_of_def ws_send_def ws_close_def recorder_stop_def tracks_stop_def
  synth_cancel_def session_request_def startSession_def startMissionButton_def ws_onopen_def
  socket_opened_def ws_onclose_def socket_closed_def render_of_def pick_voice_def speakText_def
  toggleMute_def handleWebSocketMessage_def js_or_def ws_onmessage_def startRecording_def startRecording_call_def
  startRecording_resume_def
  stopRecording_def micButton_def ondataavailable_def recorder_onstop_def sendTextMessage_def
  endSession_def new_effects_def silent_def channel_open_def capturing_def speaking_def
  message_def demo_synth_def demo_setup_def demo_active_def demo_recording_def

subsection \<open>Dispatch\<close>

lemma handle_nonfinal:
  "m_type m = JStr ''input_transcript'' \<Longrightarrow> \<not> truthy (m_is_final m) \<Longrightarrow>
   handleWebSocketMessage rn m s = s"
  by (simp add: handleWebSocketMessage_def)

lemma deliver_nonfinal:
  "\<forall>m\<in>set ms. m_type m = JStr ''input_transcript'' \<and> \<not> truthy (m_is_final m) \<Longrightarrow>
   deliver rn ms s = s"
  by (induction ms arbitrary: s) (simp_all add: handle_nonfinal)

lemma deliver_append: "deliver rn (xs @ ys) s = deliver rn ys (deliver rn xs s)"
  by (induction xs arbitrary: s) simp_all

lemma assistant_falsy:
  "m_type m = JStr ''output_transcript'' \<or> m_type m = JStr ''text'' \<Longrightarrow>
   \<not> truthy (js_or (m_text m) (m_data m)) \<Longrightarrow> handleWebSocketMessage rn m s = s"
  unfolding handleWebSocketMessage_def by (erule disjE) (simp_all add: Let_def)

lemma assistant_truthy:
  "m_type m = JStr ''output_transcript'' \<or> m_type m = JStr ''text'' \<Longrightarrow>
   truthy (js_or (m_text m) (m_data m)) \<Longrightarrow>
   handleWebSocketMessage rn m s =
     speakText rn (js_or (m_text m) (m_data m))
       (s\<lparr>transcripts := transcripts s @
          [\<lparr>e_role = Assistant, e_text = js_or (m_text m) (m_data m), e_isTemp = False\<rparr>]\<rparr>)"
  unfolding handleWebSocketMessage_def by (erule disjE) (simp_all add: Let_def)

lemma speakText_transcripts: "transcripts (speakText rn t s) = transcripts s"
  by (simp add: speakText_def call_def Let_def split: option.split)

lemma speakText_effects:
  "effects (speakText rn t s) =
     effects s @
       (case synthRef s of
          None \<Rightarrow> []
        | Some sy \<Rightarrow>
            if rn_isMuted rn then []
            else [SynthCancel,
                  SynthSpeak \<lparr>u_text = t,
                    u_voice = pick_voice (sy_voices sy) (l_code (rn_selectedLanguage rn))\<rparr>])"
  by (simp add: speakText_def call_def Let_def split: option.split)

lemma js_or_empty: "absent_or_empty a \<Longrightarrow> js_or a b = b"
  by (auto simp: absent_or_empty_def js_or_def)

lemma absent_not_truthy: "absent_or_empty a \<Longrightarrow> \<not> truthy a"
  by (auto simp: absent_or_empty_def)

lemma requests_append: "requests (xs @ ys) = requests xs @ requests ys"
  by (induction xs rule: requests.induct) simp_all

subsection \<open>The channel\<close>

lemma ws_send_not_connecting:
  "readyState_of s w = CLOSING \<or> readyState_of s w = CLOSED \<Longrightarrow>
   ws_send w m s = (call (WsSend w m) s, None)"
  by (auto simp: ws_send_def Let_def)

lemma ws_send_connecting:
  "readyState_of s w = CONNECTING \<Longrightarrow>
   ws_send w m s = (call (WsSend w m) s, Some InvalidStateError)"
  by (simp add: ws_send_def Let_def)

lemma recorder_onstop_not_open: "\<not> channel_open s \<Longrightarrow> recorder_onstop i s = (s, None)"
  by (simp add: channel_open_def recorder_onstop_def split: option.splits)

subsection \<open>Transcript of the user's speech\<close>

text \<open>
  C4. A run of \<open>input_transcript\<close> events that are not final, followed by one that is
  final, appends exactly one entry: role user, the text of the final event. The events
  that are not final change nothing, so none of them appends an entry.
\<close>

theorem input_transcript_final_appends_once:
  assumes "\<forall>m\<in>set ms. m_type m = JStr ''input_transcript'' \<and> \<not> truthy (m_is_final m)"
    and "m_type fm = JStr ''input_transcript''"
    and "truthy (m_is_final fm)"
  shows "deliver rn ms s = s \<and>
         deliver rn (ms @ [fm]) s =
           s\<lparr>transcripts := transcripts s @
                [\<lparr>e_role = User, e_text = m_text fm, e_isTemp = False\<rparr>]\<rparr>"
  using assms by (simp add: deliver_append deliver_nonfinal handleWebSocketMessage_def)

text \<open>C4 at two interim events and the final one, delivered in the active session.\<close>

theorem input_transcript_final_appends_once_witness:
  "transcripts
     (deliver (render_of demo_setup)
        ([(message ''input_transcript'')\<lparr>m_text := JStr ''Ho'', m_is_final := JBool False\<rparr>,
          (message ''input_transcript'')\<lparr>m_text := JStr ''Hol'', m_is_final := JBool False\<rparr>]
         @ [(message ''input_transcript'')\<lparr>m_text := JStr ''Hola'', m_is_final := JBool True\<rparr>])
        demo_active)
   = [\<lparr>e_role = User, e_text = JStr ''Hola'', e_isTemp = False\<rparr>]"
  using input_transcript_final_appends_once
    [where ms = "[(message ''input_transcript'')\<lparr>m_text := JStr ''Ho'', m_is_final := JBool False\<rparr>,
          (message ''input_transcript'')\<lparr>m_text := JStr ''Hol'', m_is_final := JBool False\<rparr>]"
       and fm = "(message ''input_transcript'')\<lparr>m_text := JStr ''Hola'', m_is_final := JBool True\<rparr>"
       and rn = "render_of demo_setup" and s = demo_active]
  by (simp add: message_def) (simp add: model_defs)

subsection \<open>Assistant replies\<close>

text \<open>
  C10. For an inbound \<open>output_transcript\<close> or \<open>text\<close> message: if \<open>text\<close> and \<open>data\<close>
  are both absent or empty the state is unchanged (no entry, no call on the
  synthesizer). If \<open>text\<close> is a non-empty string, or \<open>text\<close> is absent or empty and
  \<open>data\<close> is a non-empty string, the handler is one application of \<open>speakText\<close> to that
  string, after exactly one assistant entry with that string was appended; \<open>speakText\<close>
  makes one \<open>speak\<close> call for it, unless the handler's render is muted or the browser has
  no synthesizer.
\<close>

theorem assistant_message_appended_and_spoken:
  assumes ty: "m_type m = JStr ''output_transcript'' \<or> m_type m = JStr ''text''"
  shows "(absent_or_empty (m_text m) \<and> absent_or_empty (m_data m) \<longrightarrow>
            handleWebSocketMessage rn m s = s)
       \<and> (t \<noteq> [] \<and> (m_text m = JStr t \<or> absent_or_empty (m_text m) \<and> m_data m = JStr t) \<longrightarrow>
            handleWebSocketMessage rn m s =
              speakText rn (JStr t)
                (s\<lparr>transcripts := transcripts s @
                     [\<lparr>e_role = Assistant, e_text = JStr t, e_isTemp = False\<rparr>]\<rparr>)
          \<and> transcripts (handleWebSocketMessage rn m s) =
              transcripts s @ [\<lparr>e_role = Assistant, e_text = JStr t, e_isTemp = False\<rparr>]
          \<and> new_effects s (handleWebSocketMessage rn m s) =
              (case synthRef s of
                 None \<Rightarrow> []
               | Some sy \<Rightarrow>
                   if rn_isMuted rn then []
                   else [SynthCancel,
                         SynthSpeak \<lparr>u_text = JStr t,
                           u_voice = pick_voice (sy_voices sy) (l_code (rn_selectedLanguage rn))\<rparr>]))"
proof (intro conjI impI)
  assume "absent_or_empty (m_text m) \<and> absent_or_empty (m_data m)"
  then have "\<not> truthy (js_or (m_text m) (m_data m))"
    by (simp add: js_or_empty absent_not_truthy)
  with ty show "handleWebSocketMessage rn m s = s"
    by (rule assistant_falsy)
next
  assume h: "t \<noteq> [] \<and> (m_text m = JStr t \<or> absent_or_empty (m_text m) \<and> m_data m = JStr t)"
  then have v: "js_or (m_text m) (m_data m) = JStr t"
    by (auto simp: js_or_empty) (simp add: js_or_def)
  from h have "truthy (js_or (m_text m) (m_data m))"
    by (simp add: v)
  with ty have e: "handleWebSocketMessage rn m s =
     speakText rn (js_or (m_text m) (m_data m))
       (s\<lparr>transcripts := transcripts s @
          [\<lparr>e_role = Assistant, e_text = js_or (m_text m) (m_data m), e_isTemp = False\<rparr>]\<rparr>)"
    by (rule assistant_truthy)
  show "handleWebSocketMessage rn m s =
      speakText rn (JStr t)
        (s\<lparr>transcripts := transcripts s @
             [\<lparr>e_role = Assistant, e_text = JStr t, e_isTemp = False\<rparr>]\<rparr>)"
    using e by (simp add: v)
  show "transcripts (handleWebSocketMessage rn m s) =
      transcripts s @ [\<lparr>e_role = Assistant, e_text = JStr t, e_isTemp = False\<rparr>]"
    using e by (simp add: v speakText_transcripts)
  show "new_effects s (handleWebSocketMessage rn m s) =
      (case synthRef s of
         None \<Rightarrow> []
       | Some sy \<Rightarrow>
           if rn_isMuted rn then []
           else [SynthCancel,
                 SynthSpeak \<lparr>u_text = JStr t,
                   u_voice = pick_voice (sy_voices sy) (l_code (rn_selectedLanguage rn))\<rparr>])"
    using e by (simp add: v speakText_effects new_effects_def)
qed

text \<open>
  C10 at three messages in the active session: an empty reply, a reply in \<open>text\<close>, and a
  reply in \<open>data\<close> alone.
\<close>

theorem assistant_message_appended_and_spoken_witness:
  "handleWebSocketMessage (render_of demo_setup)
      ((message ''output_transcript'')\<lparr>m_text := JStr []\<rparr>) demo_active = demo_active
   \<and> transcripts (handleWebSocketMessage (render_of demo_setup)
        ((message ''output_transcript'')\<lparr>m_text := JStr ''Hola''\<rparr>) demo_active)
      = [\<lparr>e_role = Assistant, e_text = JStr ''Hola'', e_isTemp = False\<rparr>]
   \<and> new_effects demo_active (handleWebSocketMessage (render_of demo_setup)
        ((message ''output_transcript'')\<lparr>m_text := JStr ''Hola''\<rparr>) demo_active)
      = [SynthCancel,
         SynthSpeak \<lparr>u_text = JStr ''Hola'',
                     u_voice = Some \<lparr>v_name = ''Monica'', v_lang = ''es-ES''\<rparr>\<rparr>]
   \<and> transcripts (handleWebSocketMessage (render_of demo_setup)
        ((message ''text'')\<lparr>m_data := JStr ''Bien''\<rparr>) demo_active)
      = [\<lparr>e_role = Assistant, e_text = JStr ''Bien'', e_isTemp = False\<rparr>]"
  using
    assistant_message_appended_and_spoken
      [where m = "(message ''output_transcript'')\<lparr>m_text := JStr []\<rparr>"
         and rn = "render_of demo_setup" and s = demo_active and t = "''x''"]
    assistant_message_appended_and_spoken
      [where m = "(message ''output_transcript'')\<lparr>m_text := JStr ''Hola''\<rparr>"
         and rn = "render_of demo_setup" and s = demo_active and t = "''Hola''"]
    assistant_message_appended_and_spoken
      [where m = "(message ''text'')\<lparr>m_data := JStr ''Bien''\<rparr>"
         and rn = "render_of demo_setup" and s = demo_active and t = "''Bien''"]
  by (simp add: message_def absent_or_empty_def) (simp add: model_defs Let_def)

subsection \<open>Unknown message types\<close>

text \<open>
  C8, as the code has it. An inbound message whose \<open>type\<close> is none of the types the
  dispatch names does not make the handler throw, and it is ignored: the state is left
  exactly as it was, so no error is set and nothing is logged.
\<close>

theorem unknown_type_ignored:
  "m_type m \<notin> set known_types \<Longrightarrow> ws_onmessage rn (PObj m) s = (s, None)"
  by (simp add: ws_onmessage_def handleWebSocketMessage_def known_types_def)

text \<open>C8, as the code has it, at a message of type \<open>resume\<close>.\<close>

theorem unknown_type_ignored_witness:
  "m_type (message ''resume'') \<notin> set known_types
   \<and> ws_onmessage (render_of demo_setup) (PObj (message ''resume'')) demo_active = (demo_active, None)"
  using unknown_type_ignored
    [where m = "message ''resume''" and rn = "render_of demo_setup" and s = demo_active]
  by (simp add: message_def known_types_def)

text \<open>
  C8 as stated fails: a message of type \<open>resume\<close> is not reported, the handler runs
  silently.
\<close>

theorem unknown_type_not_reported:
  "silent demo_active
     (ws_onmessage (render_of demo_setup) (PObj (message ''resume'')) demo_active)"
  by (simp add: silent_def ws_onmessage_def handleWebSocketMessage_def message_def)

subsection \<open>Mute\<close>

text \<open>
  C6, as the code has it. The mute button only flips \<open>isMuted\<close>: the synthesizer, with
  whatever it is speaking, is left as it was and no call is made on it. The flag acts in
  \<open>speakText\<close> alone, which does nothing when the render it runs in is muted.
\<close>

theorem toggleMute_only_sets_flag:
  "isMuted (toggleMute s) = (\<not> isMuted s) \<and> synthRef (toggleMute s) = synthRef s
   \<and> effects (toggleMute s) = effects s
   \<and> (rn_isMuted rn \<longrightarrow> speakText rn t s' = s')"
  by (simp add: toggleMute_def speakText_def split: option.splits)

text \<open>C6, as the code has it, while the reply is being spoken.\<close>

theorem toggleMute_only_sets_flag_witness:
  "rn_isMuted (render_of (toggleMute demo_speaking))
   \<and> speakText (render_of (toggleMute demo_speaking)) (JStr ''Bien'') (toggleMute demo_speaking)
       = toggleMute demo_speaking
   \<and> synthRef (toggleMute demo_speaking) = synthRef demo_speaking"
  using toggleMute_only_sets_flag
    [where s = demo_speaking and rn = "render_of (toggleMute demo_speaking)"
       and t = "JStr ''Bien''" and s' = "toggleMute demo_speaking"]
  by (simp add: model_defs demo_speaking_def Let_def)

text \<open>
  C6 as stated fails: muting while the reply is being spoken leaves it being spoken.
\<close>

theorem toggleMute_keeps_playback:
  "\<not> isMuted demo_speaking \<and> speaking demo_speaking
   \<and> isMuted (toggleMute demo_speaking) \<and> speaking (toggleMute demo_speaking)"
  by (simp add: model_defs demo_speaking_def Let_def)

subsection \<open>Session request\<close>

text \<open>
  C9. With no mission selected the Start Mission button, the one caller of
  \<open>startSession\<close>, does nothing: no request is issued and the state is unchanged. Every
  run of \<open>startSession\<close> issues one request, whose body carries the name of the selected
  language, the selected mode and the source language English.
\<close>

theorem start_gated_and_request_carries_selection:
  "(selectedMission s = None \<longrightarrow> startMissionButton fr https s = s)
   \<and> requests (effects (startSession fr https s)) =
       requests (effects s) @
         [\<lparr>rq_mission_id = map_option ms_id (selectedMission s),
           rq_language = l_name (selectedLanguage s),
           rq_from_language = ''English'', rq_mode = mode s\<rparr>]"
  by (simp add: startMissionButton_def startSession_def session_request_def call_def
      requests_append Let_def split: fetch_result.splits)

text \<open>C9 in the first render, where no mission is selected yet.\<close>

theorem start_gated_and_request_carries_selection_witness:
  "selectedMission (initial None) = None
   \<and> startMissionButton (RespOk (JStr ''s1'')) False (initial None) = initial None
   \<and> requests (effects (startSession (RespOk (JStr ''s1'')) False demo_setup))
       = [\<lparr>rq_mission_id = Some ''m1'', rq_language = ''English'',
           rq_from_language = ''English'', rq_mode = Teacher\<rparr>]"
  using
    start_gated_and_request_carries_selection
      [where s = "initial None" and fr = "RespOk (JStr ''s1'')" and https = False]
    start_gated_and_request_carries_selection
      [where s = demo_setup and fr = "RespOk (JStr ''s1'')" and https = False]
  by (simp add: initial_def demo_setup_def LANGUAGES_def)

subsection \<open>Releasing the microphone and the speaker\<close>

lemma stopRecording_effects:
  "\<exists>es. effects (stopRecording s) = effects s @ es \<and> list_all is_release es"
  by (simp add: stopRecording_def recorder_stop_def tracks_stop_def call_def Let_def
      split: option.split)

lemma synth_cancel_effects:
  "\<exists>es. effects (synth_cancel s) = effects s @ es \<and> list_all is_release es"
  by (simp add: synth_cancel_def call_def split: option.split)

lemma capturing_cong:
  "mediaRecorderRef s' = mediaRecorderRef s \<Longrightarrow> recorders s' = recorders s \<Longrightarrow>
   streamRef s' = streamRef s \<Longrightarrow> streams s' = streams s \<Longrightarrow> capturing s' = capturing s"
  by (simp add: capturing_def recorder_state_of_def live_def split: option.split)

lemma speaking_cong: "synthRef s' = synthRef s \<Longrightarrow> speaking s' = speaking s"
  by (simp add: speaking_def)

lemma recorder_part_not_recording:
  "(case mediaRecorderRef s of None \<Rightarrow> False
    | Some r \<Rightarrow> recorder_state_of
        (case mediaRecorderRef s of None \<Rightarrow> s
         | Some r \<Rightarrow> if recorder_state_of s r = Recording then recorder_stop r s else s) r
        = Recording)
   = False"
  by (cases "mediaRecorderRef s")
     (auto simp: recorder_state_of_def recorder_stop_def call_def split: if_splits)

lemma stopRecording_not_capturing: "\<not> capturing (stopRecording s)"
proof -
  define s1 where "s1 = (case mediaRecorderRef s of None \<Rightarrow> s
         | Some r \<Rightarrow> if recorder_state_of s r = Recording then recorder_stop r s else s)"
  have m: "mediaRecorderRef s1 = mediaRecorderRef s"
    by (simp add: s1_def recorder_stop_def call_def split: option.split)
  have r: "(case mediaRecorderRef s1 of None \<Rightarrow> False
            | Some r \<Rightarrow> recorder_state_of s1 r = Recording) = False"
    unfolding m unfolding s1_def by (rule recorder_part_not_recording)
  have e: "stopRecording s =
      (case streamRef s1 of None \<Rightarrow> s1 | Some t \<Rightarrow> tracks_stop t s1)\<lparr>isRecording := False\<rparr>"
    unfolding stopRecording_def s1_def Let_def by (rule refl)
  show ?thesis
    using r unfolding e
    by (cases "streamRef s1")
       (auto simp: capturing_def tracks_stop_def call_def live_def recorder_state_of_def
             split: option.splits)
qed

lemma synth_cancel_not_speaking: "\<not> speaking (synth_cancel s)"
  by (simp add: speaking_def synth_cancel_def call_def split: option.split)

lemma synth_cancel_capturing: "capturing (synth_cancel s) = capturing s"
  by (rule capturing_cong) (simp_all add: synth_cancel_def call_def split: option.split)

lemma release_effects:
  "\<exists>es. effects (synth_cancel (stopRecording s)) = effects s @ es \<and> list_all is_release es"
proof -
  obtain a where a: "effects (stopRecording s) = effects s @ a" "list_all is_release a"
    using stopRecording_effects by blast
  obtain b where b: "effects (synth_cancel (stopRecording s)) = effects (stopRecording s) @ b"
      "list_all is_release b"
    using synth_cancel_effects by blast
  have "effects (synth_cancel (stopRecording s)) = effects s @ (a @ b)"
    by (simp add: a(1) b(1))
  moreover have "list_all is_release (a @ b)"
    by (simp add: a(2) b(2))
  ultimately show ?thesis by blast
qed

lemma released_quiet:
  "\<not> capturing (synth_cancel (stopRecording s))" "\<not> speaking (synth_cancel (stopRecording s))"
  by (simp_all add: synth_cancel_capturing stopRecording_not_capturing synth_cancel_not_speaking)

subsection \<open>Session end\<close>

text \<open>
  \<open>endSession\<close> by the state of the socket at the moment of the \<open>send\<close>, the release part
  being done.
\<close>

lemma endSession_unfold:
  "endSession s =
    (let s1 = synth_cancel (stopRecording s) in
     case wsRef s1 of
       None \<Rightarrow> (s1\<lparr>view := Summary\<rparr>, None)
     | Some w \<Rightarrow>
         (case readyState_of s1 w of
            CONNECTING \<Rightarrow> (call (WsSend w OutEnd) s1, Some InvalidStateError)
          | OPEN \<Rightarrow>
              ((call (WsClose w) (call (WsSend w OutEnd) s1))
                 \<lparr>sockets := (sockets s1)[w := (sockets s1 ! w)
                     \<lparr>ws_sent := ws_sent (sockets s1 ! w) @ [OutEnd], ws_readyState := CLOSING\<rparr>],
                  view := Summary\<rparr>, None)
          | CLOSING \<Rightarrow> ((call (WsClose w) (call (WsSend w OutEnd) s1))\<lparr>view := Summary\<rparr>, None)
          | CLOSED \<Rightarrow> ((call (WsClose w) (call (WsSend w OutEnd) s1))\<lparr>view := Summary\<rparr>, None)))"
proof -
  define s1 where "s1 = synth_cancel (stopRecording s)"
  have "endSession s =
     (case wsRef s1 of
       None \<Rightarrow> (s1\<lparr>view := Summary\<rparr>, None)
     | Some w \<Rightarrow>
         (case ws_send w OutEnd s1 of
            (s2, Some e) \<Rightarrow> (s2, Some e)
          | (s2, None) \<Rightarrow> ((ws_close w s2)\<lparr>view := Summary\<rparr>, None)))"
    unfolding endSession_def s1_def Let_def by (rule refl)
  also have "\<dots> = (case wsRef s1 of
       None \<Rightarrow> (s1\<lparr>view := Summary\<rparr>, None)
     | Some w \<Rightarrow>
         (case readyState_of s1 w of
            CONNECTING \<Rightarrow> (call (WsSend w OutEnd) s1, Some InvalidStateError)
          | OPEN \<Rightarrow>
              ((call (WsClose w) (call (WsSend w OutEnd) s1))
                 \<lparr>sockets := (sockets s1)[w := (sockets s1 ! w)
                     \<lparr>ws_sent := ws_sent (sockets s1 ! w) @ [OutEnd], ws_readyState := CLOSING\<rparr>],
                  view := Summary\<rparr>, None)
          | CLOSING \<Rightarrow> ((call (WsClose w) (call (WsSend w OutEnd) s1))\<lparr>view := Summary\<rparr>, None)
          | CLOSED \<Rightarrow> ((call (WsClose w) (call (WsSend w OutEnd) s1))\<lparr>view := Summary\<rparr>, None)))"
    by (cases "wsRef s1")
       (auto simp: ws_send_def ws_close_def readyState_of_def call_def Let_def
             split: readyState.splits if_splits)
  finally show ?thesis unfolding s1_def Let_def .
qed

lemma endSession_channel_effects:
  "\<exists>post. effects (fst (endSession s)) = effects (synth_cancel (stopRecording s)) @ post
      \<and> list_all is_channel post"
  by (simp add: endSession_unfold Let_def call_def split: option.split readyState.split)

lemma endSession_capturing:
  "capturing (fst (endSession s)) = capturing (synth_cancel (stopRecording s))"
  by (rule capturing_cong)
     (simp_all add: endSession_unfold Let_def call_def split: option.split readyState.split)

lemma endSession_speaking:
  "speaking (fst (endSession s)) = speaking (synth_cancel (stopRecording s))"
  by (rule speaking_cong)
     (simp add: endSession_unfold Let_def call_def split: option.split readyState.split)

lemma endSession_not_open:
  "snd (endSession s) = None \<Longrightarrow> \<not> channel_open (fst (endSession s))"
  by (auto simp: endSession_unfold Let_def call_def channel_open_def readyState_of_def
           split: option.splits readyState.splits if_splits)

lemma stopRecording_refs:
  "mediaRecorderRef (stopRecording s) = mediaRecorderRef s"
  "streamRef (stopRecording s) = streamRef s"
  by (simp_all add: stopRecording_def recorder_stop_def tracks_stop_def call_def Let_def
      split: option.split)

lemma synth_cancel_refs:
  "mediaRecorderRef (synth_cancel s) = mediaRecorderRef s"
  "streamRef (synth_cancel s) = streamRef s"
  by (simp_all add: synth_cancel_def call_def split: option.split)

lemma endSession_refs:
  "mediaRecorderRef (fst (endSession s)) = mediaRecorderRef s"
  "streamRef (fst (endSession s)) = streamRef s"
proof -
  have "mediaRecorderRef (fst (endSession s)) = mediaRecorderRef (synth_cancel (stopRecording s))"
    by (simp add: endSession_unfold Let_def call_def split: option.split readyState.split)
  then show "mediaRecorderRef (fst (endSession s)) = mediaRecorderRef s"
    by (simp add: synth_cancel_refs stopRecording_refs)
  have "streamRef (fst (endSession s)) = streamRef (synth_cancel (stopRecording s))"
    by (simp add: endSession_unfold Let_def call_def split: option.split readyState.split)
  then show "streamRef (fst (endSession s)) = streamRef s"
    by (simp add: synth_cancel_refs stopRecording_refs)
qed

text \<open>
  What holds of every run of \<open>endSession\<close>. The calls made are first the calls that stop
  the recorder, stop the stream's track and cancel the synthesizer, then the calls on
  the socket (\<open>send\<close>, \<open>close\<close>). Whatever the socket does, \<open>send\<close> throwing included,
  the recorder that \<open>mediaRecorderRef\<close> held at the call is inactive, the stream that
  \<open>streamRef\<close> held is ended and nothing is queued on the synthesizer. Once \<open>endSession\<close>
  has returned, the held socket is not open, so the recorder's stop handler, which runs
  later, sends no audio.
\<close>

lemma endSession_order_and_held_release:
  "(\<exists>pre post. effects (fst (endSession s)) = effects s @ pre @ post
       \<and> list_all is_release pre \<and> list_all is_channel post)
   \<and> (\<forall>r. mediaRecorderRef s = Some r \<longrightarrow> recorder_state_of (fst (endSession s)) r = Inactive)
   \<and> (\<forall>t. streamRef s = Some t \<longrightarrow> \<not> live (fst (endSession s)) t)
   \<and> \<not> speaking (fst (endSession s))
   \<and> (snd (endSession s) = None \<longrightarrow>
        recorder_onstop i (fst (endSession s)) = (fst (endSession s), None))"
proof (intro conjI impI allI)
  obtain pre where pre: "effects (synth_cancel (stopRecording s)) = effects s @ pre"
      "list_all is_release pre"
    using release_effects by blast
  obtain post where post:
      "effects (fst (endSession s)) = effects (synth_cancel (stopRecording s)) @ post"
      "list_all is_channel post"
    using endSession_channel_effects by blast
  have "effects (fst (endSession s)) = effects s @ pre @ post"
    by (simp add: pre(1) post(1))
  with pre(2) post(2)
  show "\<exists>pre post. effects (fst (endSession s)) = effects s @ pre @ post
       \<and> list_all is_release pre \<and> list_all is_channel post"
    by blast
next
  have n: "\<not> capturing (fst (endSession s))"
    by (simp add: endSession_capturing released_quiet)
  {
    fix r assume "mediaRecorderRef s = Some r"
    then have "mediaRecorderRef (fst (endSession s)) = Some r"
      by (simp add: endSession_refs)
    with n have "recorder_state_of (fst (endSession s)) r \<noteq> Recording"
      by (simp add: capturing_def)
    then show "recorder_state_of (fst (endSession s)) r = Inactive"
      by (cases "recorder_state_of (fst (endSession s)) r") simp_all
  }
  {
    fix t assume "streamRef s = Some t"
    then have "streamRef (fst (endSession s)) = Some t"
      by (simp add: endSession_refs)
    with n show "\<not> live (fst (endSession s)) t"
      by (simp add: capturing_def)
  }
next
  show "\<not> speaking (fst (endSession s))"
    by (simp add: endSession_speaking released_quiet)
next
  assume "snd (endSession s) = None"
  then have "\<not> channel_open (fst (endSession s))"
    by (rule endSession_not_open)
  then show "recorder_onstop i (fst (endSession s)) = (fst (endSession s), None)"
    by (rule recorder_onstop_not_open)
qed

text \<open>
  C3. \<open>endSession\<close> stops the recorder and the stream that the refs hold, and only
  these. In the session whose socket the server closed while the recorder ran, the close
  handler cleared \<open>isRecording\<close>, so the microphone button started a second capture that
  took the place of the first in the refs. \<open>endSession\<close> there returns normally and
  shows the summary, having stopped the second recorder and stream before its calls on
  the socket; the first stream is still live and the first recorder still records: the
  microphone is not released.
\<close>

theorem endSession_leaves_microphone_open:
  "recorder_state_of demo_regrab 0 = Recording \<and> live demo_regrab 0
   \<and> mediaRecorderRef demo_regrab = Some 1 \<and> streamRef demo_regrab = Some 1
   \<and> snd (endSession demo_regrab) = None
   \<and> view (fst (endSession demo_regrab)) = Summary
   \<and> new_effects demo_regrab (fst (endSession demo_regrab))
       = [RecorderStop 1, TrackStop 1, SynthCancel, WsSend 0 OutEnd, WsClose 0]
   \<and> streams (fst (endSession demo_regrab)) = [True, False]
   \<and> map r_state (recorders (fst (endSession demo_regrab))) = [Recording, Inactive]
   \<and> microphone_open (fst (endSession demo_regrab))
   \<and> recording_somewhere (fst (endSession demo_regrab))"
  by (simp add: model_defs demo_server_closed_def demo_regrab_def microphone_open_def
      recording_somewhere_def Let_def)

text \<open>
  C1. The handler of \<open>session_ended\<close> sets the view and nothing else. In the session that
  is recording and speaking, the view becomes summary while the recorder still records,
  the microphone stream is still live, the reply is still being spoken and no call was
  made on the browser; \<open>endSession\<close> from the same state stops all three.
\<close>

theorem session_ended_skips_cleanup:
  "capturing demo_speaking \<and> speaking demo_speaking
   \<and> handleWebSocketMessage (render_of demo_setup) (message ''session_ended'') demo_speaking
       = demo_speaking\<lparr>view := Summary\<rparr>
   \<and> capturing (handleWebSocketMessage (render_of demo_setup) (message ''session_ended'') demo_speaking)
   \<and> speaking (handleWebSocketMessage (render_of demo_setup) (message ''session_ended'') demo_speaking)
   \<and> isRecording (handleWebSocketMessage (render_of demo_setup) (message ''session_ended'') demo_speaking)
   \<and> \<not> capturing (fst (endSession demo_speaking)) \<and> \<not> speaking (fst (endSession demo_speaking))
   \<and> \<not> isRecording (fst (endSession demo_speaking))"
  by (simp add: model_defs demo_speaking_def Let_def)

text \<open>
  A second \<open>endSession\<close> right after the first changes nothing but the log of calls:
  after the first, nothing is captured or spoken and the held socket is not open.
\<close>


lemma same_but_effects: "observable a = observable b \<longleftrightarrow> a = b\<lparr>effects := effects a\<rparr>"
proof
  assume "observable a = observable b"
  then have "(observable a)\<lparr>effects := effects a\<rparr> = (observable b)\<lparr>effects := effects a\<rparr>"
    by simp
  then show "a = b\<lparr>effects := effects a\<rparr>"
    by (simp add: observable_def)
next
  assume "a = b\<lparr>effects := effects a\<rparr>"
  then have "observable a = observable (b\<lparr>effects := effects a\<rparr>)" by simp
  then show "observable a = observable b" by (simp add: observable_def)
qed

lemma update_False_id: "\<not> (t < length xs \<and> xs ! t) \<Longrightarrow> xs[t := False] = xs"
  by (cases "t < length xs") (simp_all add: list_update_same_conv list_update_beyond)

lemma quiet_stopRecording:
  assumes "\<not> isRecording q" "\<not> capturing q"
  shows "observable (stopRecording q) = observable q"
proof -
  from assms(2) have r: "(case mediaRecorderRef q of None \<Rightarrow> q
         | Some r \<Rightarrow> if recorder_state_of q r = Recording then recorder_stop r q else q) = q"
    by (simp add: capturing_def split: option.splits)
  from assms(2) have t: "\<And>t. streamRef q = Some t \<Longrightarrow> (streams q)[t := False] = streams q"
    by (simp add: capturing_def live_def update_False_id)
  have "stopRecording q = (case streamRef q of None \<Rightarrow> q | Some t \<Rightarrow> tracks_stop t q)\<lparr>isRecording := False\<rparr>"
    unfolding stopRecording_def Let_def r by (rule refl)
  with assms(1) t show ?thesis
    by (cases "streamRef q") (simp_all add: observable_def tracks_stop_def call_def)
qed

lemma quiet_synth_cancel:
  assumes "\<not> speaking q"
  shows "observable (synth_cancel q) = observable q"
  using assms
  by (cases "synthRef q") (simp_all add: observable_def synth_cancel_def call_def speaking_def)

lemma observable_fields:
  assumes "observable a = observable b"
  shows "wsRef a = wsRef b" "sockets a = sockets b" "view a = view b" "synthRef a = synthRef b"
    "isRecording a = isRecording b" "mediaRecorderRef a = mediaRecorderRef b"
    "recorders a = recorders b" "streamRef a = streamRef b" "streams a = streams b"
proof -
  from assms have e: "a = b\<lparr>effects := effects a\<rparr>" by (simp add: same_but_effects)
  show "wsRef a = wsRef b" by (subst e) simp
  show "sockets a = sockets b" by (subst e) simp
  show "view a = view b" by (subst e) simp
  show "synthRef a = synthRef b" by (subst e) simp
  show "isRecording a = isRecording b" by (subst e) simp
  show "mediaRecorderRef a = mediaRecorderRef b" by (subst e) simp
  show "recorders a = recorders b" by (subst e) simp
  show "streamRef a = streamRef b" by (subst e) simp
  show "streams a = streams b" by (subst e) simp
qed

lemma endSession_isRecording: "\<not> isRecording (fst (endSession s))"
proof -
  have "\<not> isRecording (synth_cancel (stopRecording s))"
    by (simp add: synth_cancel_def stopRecording_def call_def Let_def split: option.split)
  then show ?thesis
    by (simp add: endSession_unfold Let_def call_def split: option.split readyState.split)
qed

text \<open>The socket held after endSession: none, still connecting, or closing or closed with the summary shown.\<close>

lemma endSession_channel_state:
  "(case wsRef (fst (endSession s)) of
      None \<Rightarrow> view (fst (endSession s)) = Summary
    | Some w \<Rightarrow>
        (case readyState_of (fst (endSession s)) w of
           CONNECTING \<Rightarrow> True
         | OPEN \<Rightarrow> False
         | CLOSING \<Rightarrow> view (fst (endSession s)) = Summary
         | CLOSED \<Rightarrow> view (fst (endSession s)) = Summary))"
  by (auto simp: endSession_unfold Let_def call_def readyState_of_def
           split: option.splits readyState.splits if_splits)


lemma observable_call: "observable (call e a) = observable a"
  by (simp add: observable_def call_def)

lemma view_same: "view a = v \<Longrightarrow> a\<lparr>view := v\<rparr> = a"
  by (cases a) simp

lemma endSession_quiet:
  assumes rec: "\<not> isRecording q" and cap: "\<not> capturing q" and spk: "\<not> speaking q"
    and ch: "(case wsRef q of
      None \<Rightarrow> view q = Summary
    | Some w \<Rightarrow>
        (case readyState_of q w of
           CONNECTING \<Rightarrow> True
         | OPEN \<Rightarrow> False
         | CLOSING \<Rightarrow> view q = Summary
         | CLOSED \<Rightarrow> view q = Summary))"
  shows "observable (fst (endSession q)) = observable q"
proof -
  define a where "a = synth_cancel (stopRecording q)"
  have o1: "observable (stopRecording q) = observable q"
    using rec cap by (rule quiet_stopRecording)
  have "speaking (stopRecording q) = speaking q"
    by (rule speaking_cong) (rule observable_fields(4)[OF o1])
  with spk have "observable (synth_cancel (stopRecording q)) = observable (stopRecording q)"
    by (simp add: quiet_synth_cancel)
  with o1 have oa: "observable a = observable q"
    by (simp add: a_def)
  note f = observable_fields[OF oa]
  have rs: "readyState_of a w = readyState_of q w" for w
    by (simp add: readyState_of_def f(2))
  have e: "endSession q =
     (case wsRef a of
       None \<Rightarrow> (a\<lparr>view := Summary\<rparr>, None)
     | Some w \<Rightarrow>
         (case readyState_of a w of
            CONNECTING \<Rightarrow> (call (WsSend w OutEnd) a, Some InvalidStateError)
          | OPEN \<Rightarrow>
              ((call (WsClose w) (call (WsSend w OutEnd) a))
                 \<lparr>sockets := (sockets a)[w := (sockets a ! w)
                     \<lparr>ws_sent := ws_sent (sockets a ! w) @ [OutEnd], ws_readyState := CLOSING\<rparr>],
                  view := Summary\<rparr>, None)
          | CLOSING \<Rightarrow> ((call (WsClose w) (call (WsSend w OutEnd) a))\<lparr>view := Summary\<rparr>, None)
          | CLOSED \<Rightarrow> ((call (WsClose w) (call (WsSend w OutEnd) a))\<lparr>view := Summary\<rparr>, None)))"
    unfolding a_def endSession_unfold Let_def by (rule refl)
  have "observable (fst (endSession q)) = observable a"
  proof (cases "wsRef a")
    case None
    with ch have "view a = Summary" by (simp add: f(1) f(3))
    then have "a\<lparr>view := Summary\<rparr> = a" by (rule view_same)
    with None show ?thesis by (simp add: e)
  next
    case (Some w)
    show ?thesis
    proof (cases "readyState_of a w")
      case CONNECTING
      with Some show ?thesis by (simp add: e observable_call)
    next
      case OPEN
      with Some ch show ?thesis by (simp add: f(1) rs[symmetric])
    next
      case CLOSING
      with Some ch have "view (call (WsClose w) (call (WsSend w OutEnd) a)) = Summary"
        by (simp add: f(1) f(3) rs[symmetric] call_def)
      then have "(call (WsClose w) (call (WsSend w OutEnd) a))\<lparr>view := Summary\<rparr>
          = call (WsClose w) (call (WsSend w OutEnd) a)"
        by (rule view_same)
      with Some CLOSING show ?thesis by (simp add: e observable_call)
    next
      case CLOSED
      with Some ch have "view (call (WsClose w) (call (WsSend w OutEnd) a)) = Summary"
        by (simp add: f(1) f(3) rs[symmetric] call_def)
      then have "(call (WsClose w) (call (WsSend w OutEnd) a))\<lparr>view := Summary\<rparr>
          = call (WsClose w) (call (WsSend w OutEnd) a)"
        by (rule view_same)
      with Some CLOSED show ?thesis by (simp add: e observable_call)
    qed
  qed
  with oa show ?thesis by simp
qed

lemma endSession_idempotent:
  "observable (fst (endSession (fst (endSession s)))) = observable (fst (endSession s))"
proof (rule endSession_quiet)
  show "\<not> isRecording (fst (endSession s))" by (rule endSession_isRecording)
  show "\<not> capturing (fst (endSession s))"
    by (simp add: endSession_capturing released_quiet)
  show "\<not> speaking (fst (endSession s))"
    by (simp add: endSession_speaking released_quiet)
  show "case wsRef (fst (endSession s)) of
      None \<Rightarrow> view (fst (endSession s)) = Summary
    | Some w \<Rightarrow>
        (case readyState_of (fst (endSession s)) w of
           CONNECTING \<Rightarrow> True
         | OPEN \<Rightarrow> False
         | CLOSING \<Rightarrow> view (fst (endSession s)) = Summary
         | CLOSED \<Rightarrow> view (fst (endSession s)) = Summary)"
    by (rule endSession_channel_state)
qed

text \<open>
  C2. \<open>endSession\<close> calls \<open>send\<close> on whatever socket \<open>wsRef\<close> holds. Pressed in the
  active view while that socket is still connecting, \<open>send\<close> throws InvalidStateError and
  \<open>endSession\<close> ends there: the socket is not closed and the view stays active.
\<close>

theorem endSession_throws_while_connecting:
  "view demo_double = Active \<and> wsRef demo_double = Some 1
   \<and> readyState_of demo_double 1 = CONNECTING
   \<and> snd (endSession demo_double) = Some InvalidStateError
   \<and> view (fst (endSession demo_double)) = Active
   \<and> readyState_of (fst (endSession demo_double)) 1 = CONNECTING
   \<and> new_effects demo_double (fst (endSession demo_double)) = [SynthCancel, WsSend 1 OutEnd]"
  by (simp add: model_defs demo_double_def Let_def)

subsection \<open>Outbound messages\<close>

text \<open>
  C5, as the code has it. The audio flushed at capture stop is sent only when the held
  socket is open. When the channel is not open, the audio is dropped and no failure is
  reported: nothing is thrown, no error is set, the state is left as it was.
\<close>

theorem audio_flush_only_when_open:
  "(\<not> channel_open s \<longrightarrow> recorder_onstop i s = (s, None))
   \<and> (wsRef s = Some w \<and> readyState_of s w = OPEN \<longrightarrow>
        recorder_onstop i s =
          (s\<lparr>effects := effects s @ [WsSend w (OutAudio (concat (chunks_of s i)))],
             sockets := (sockets s)[w := (sockets s ! w)
               \<lparr>ws_sent := ws_sent (sockets s ! w) @ [OutAudio (concat (chunks_of s i))]\<rparr>]\<rparr>,
           None))"
proof (intro conjI impI)
  assume "\<not> channel_open s"
  then show "recorder_onstop i s = (s, None)"
    by (rule recorder_onstop_not_open)
next
  assume "wsRef s = Some w \<and> readyState_of s w = OPEN"
  then show "recorder_onstop i s =
          (s\<lparr>effects := effects s @ [WsSend w (OutAudio (concat (chunks_of s i)))],
             sockets := (sockets s)[w := (sockets s ! w)
               \<lparr>ws_sent := ws_sent (sockets s ! w) @ [OutAudio (concat (chunks_of s i))]\<rparr>]\<rparr>,
           None)"
    by (simp add: recorder_onstop_def ws_send_def call_def Let_def)
qed

text \<open>
  C5, as the code has it: the flush after the server closed the socket, and the flush
  of a recorder stopped by the microphone button while the socket is open.
\<close>

theorem audio_flush_only_when_open_witness:
  "\<not> channel_open demo_closed
   \<and> chunks_of demo_closed 0 = [''abc'']
   \<and> recorder_onstop 0 demo_closed = (demo_closed, None)
   \<and> wsRef demo_stopped = Some 0 \<and> readyState_of demo_stopped 0 = OPEN
   \<and> snd (recorder_onstop 0 demo_stopped) = None
   \<and> sent_of (fst (recorder_onstop 0 demo_stopped)) 0 = [OutAudio ''abc'']
   \<and> new_effects demo_stopped (fst (recorder_onstop 0 demo_stopped)) = [WsSend 0 (OutAudio ''abc'')]"
  using
    audio_flush_only_when_open [where s = demo_closed and i = 0 and w = 0]
    audio_flush_only_when_open [where s = demo_stopped and i = 0 and w = 0]
  by (simp add: model_defs demo_closed_def demo_stopped_def Let_def)

text \<open>
  C5 as stated fails: with recorded data at hand and the socket closed by the server, the
  flush at capture stop sends nothing and runs silently.
\<close>

theorem audio_flush_dropped_unreported:
  "chunks_of demo_closed 0 = [''abc''] \<and> \<not> channel_open demo_closed
   \<and> silent demo_closed (recorder_onstop 0 demo_closed)
   \<and> sent_of (fst (recorder_onstop 0 demo_closed)) 0 = []"
  by (simp add: model_defs demo_closed_def Let_def)

subsection \<open>Starting capture\<close>

text \<open>
  C7. Capture is started while a recorder already records. The server closed the socket
  during recording; the close handler cleared \<open>isRecording\<close> and stopped nothing, so the
  microphone button runs \<open>startRecording\<close>, which has no guard of its own. The
  microphone is requested a second time, a second stream and recorder take the place of
  the first in the refs and recording starts again, while the first stream stays live
  and the first recorder keeps recording.
\<close>

theorem micButton_opens_second_stream:
  "recorder_state_of demo_server_closed 0 = Recording \<and> live demo_server_closed 0
   \<and> streamRef demo_server_closed = Some 0 \<and> mediaRecorderRef demo_server_closed = Some 0
   \<and> \<not> isRecording demo_server_closed
   \<and> new_effects demo_server_closed (micButton True True demo_server_closed)
        = [GetUserMedia, NewAudioContext, RecorderStart 1]
   \<and> streamRef (micButton True True demo_server_closed) = Some 1
   \<and> mediaRecorderRef (micButton True True demo_server_closed) = Some 1
   \<and> streams (micButton True True demo_server_closed) = [True, True]
   \<and> map r_state (recorders (micButton True True demo_server_closed)) = [Recording, Recording]"
  by (simp add: model_defs demo_server_closed_def Let_def)

end
